theory Spec2Isabelle
  imports Main "HOL-Library.Sublist" "HOL-Library.List_Lexorder" "HOL-Library.Char_ord"
begin

section \<open>SocketChat: the relay server and the direct-chat id\<close>

text \<open>
  The development embeds \<^verbatim>\<open>server.js\<close> (the socket.io relay) and the direct-chat id of
  \<^verbatim>\<open>UsersScreen.tsx\<close>. Strings are lists of characters compared code unit by code
  unit, which is the order of JavaScript's default \<^verbatim>\<open>Array.prototype.sort\<close> on strings.
\<close>

subsection \<open>The direct-chat id (UsersScreen.tsx, handleStartChat)\<close>

text \<open>\<^verbatim>\<open>Array.prototype.join\<close>: the elements separated by \<open>sep\<close>.\<close>

fun join :: "string \<Rightarrow> string list \<Rightarrow> string" where
  "join sep [] = []"
| "join sep [x] = x"
| "join sep (x # y # ys) = x @ sep @ join sep (y # ys)"

text \<open>\<^verbatim>\<open>const directChatId = [userId, targetUser.id].sort().join('-')\<close>\<close>

definition directChatId :: "string \<Rightarrow> string \<Rightarrow> string" where
  "directChatId userId targetId = join ''-'' (sort [userId, targetId])"

subsection \<open>JavaScript values\<close>

text \<open>
  Payload fields that a client may leave out are options (\<open>None\<close> is \<^verbatim>\<open>undefined\<close>).
  A string is truthy when it is present and not empty. \<^verbatim>\<open>String.prototype.trim\<close> removes
  the white space of both ends; the white-space code units below 256 are listed.
\<close>

definition is_ws :: "char \<Rightarrow> bool" where
  "is_ws c = (c \<in> set [CHR 0x09, CHR 0x0A, CHR 0x0B, CHR 0x0C, CHR 0x0D, CHR 0x20, CHR 0xA0])"

definition trim :: "string \<Rightarrow> string" where
  "trim s = rev (dropWhile is_ws (rev (dropWhile is_ws s)))"

definition truthy :: "string option \<Rightarrow> bool" where
  "truthy v = (case v of None \<Rightarrow> False | Some x \<Rightarrow> x \<noteq> [])"

text \<open>\<^verbatim>\<open>!v || v.trim() === ''\<close>\<close>

definition blank :: "string option \<Rightarrow> bool" where
  "blank v = (case v of None \<Rightarrow> True | Some x \<Rightarrow> x = [] \<or> trim x = [])"

text \<open>\<^verbatim>\<open>String.prototype.split\<close> at a one-character separator.\<close>

fun split :: "char \<Rightarrow> string \<Rightarrow> string list" where
  "split c [] = [[]]"
| "split c (x # xs) =
     (if x = c then [] # split c xs
      else (case split c xs of [] \<Rightarrow> [[x]] | w # ws \<Rightarrow> (x # w) # ws))"

text \<open>The decimal digits of a number, for the template literal around \<^verbatim>\<open>Date.now()\<close>.\<close>

fun digits :: "nat \<Rightarrow> string" where
  "digits n =
     (if n < 10 then [char_of (48 + n)] else digits (n div 10) @ [char_of (48 + n mod 10)])"

declare digits.simps [simp del]

subsection \<open>JavaScript's Map, in insertion order\<close>

text \<open>
  \<^verbatim>\<open>Map.prototype.set\<close> overwrites the value of a key that is present, where it stands,
  and appends a new key; \<^verbatim>\<open>forEach\<close> visits the entries in that order.
\<close>

fun Map_set :: "'k \<Rightarrow> 'v \<Rightarrow> ('k \<times> 'v) list \<Rightarrow> ('k \<times> 'v) list" where
  "Map_set k v [] = [(k, v)]"
| "Map_set k v (p # ps) = (if fst p = k then (k, v) # ps else p # Map_set k v ps)"

definition Map_get :: "('k \<times> 'v) list \<Rightarrow> 'k \<Rightarrow> 'v option" where
  "Map_get m k = map_of m k"

definition Map_has :: "('k \<times> 'v) list \<Rightarrow> 'k \<Rightarrow> bool" where
  "Map_has m k = (Map_get m k \<noteq> None)"

definition Map_delete :: "'k \<Rightarrow> ('k \<times> 'v) list \<Rightarrow> ('k \<times> 'v) list" where
  "Map_delete k m = filter (\<lambda>p. fst p \<noteq> k) m"

subsection \<open>The server's data (server.js, lines 22 to 29)\<close>

text \<open>
  Field names carry the record's prefix, since \<open>id\<close>, \<open>name\<close> and \<open>members\<close> occur in
  several of the objects. Time stamps are the clock reading in milliseconds, which every
  handler that reads the clock takes as its argument \<open>now\<close>.
\<close>

record user =
  u_id :: string
  u_username :: string
  u_socketId :: string
  u_joinedAt :: nat

record member =
  m_id :: string
  m_username :: string

record messageData =
  md_chatId :: "string option"
  md_username :: "string option"
  md_userId :: "string option"
  md_text :: string

record chatRoom =
  r_id :: string
  r_isGroup :: bool
  r_name :: "string option"
  r_createdAt :: nat
  r_members :: "member list option"
  r_messages :: "messageData list"

record group =
  g_id :: string
  g_name :: string
  g_createdBy :: string
  g_createdAt :: nat
  g_members :: "member list"

text \<open>
  The state: the three Maps of the server, and the two structures of socket.io that the
  handlers read and write, \<^verbatim>\<open>io.sockets.sockets\<close> (the connected sockets) and
  \<^verbatim>\<open>io.sockets.adapter.rooms\<close> (for each room the sockets in it, in joining order). The
  handlers run on any such state; the room that socket.io names after each socket's own
  id is a room like the others here.
\<close>

record server =
  connectedUsers :: "(string \<times> user) list"
  chatRooms :: "(string \<times> chatRoom) list"
  groupChats :: "(string \<times> group) list"
  sockets :: "string set"
  rooms :: "string \<Rightarrow> string list"

definition initial :: server where
  "initial = \<lparr>connectedUsers = [], chatRooms = [], groupChats = [],
              sockets = {}, rooms = (\<lambda>r. [])\<rparr>"

subsection \<open>What the server emits\<close>

datatype event =
    Error string "string option"
  | UserJoined string "string option"
  | UserLeft string
  | OnlineUsers "(string \<times> string) list"
  | AvailableGroups "(string \<times> string \<times> member list \<times> string) list"
  | NewGroupChat string string string "member list"
  | GroupChatCreated string string string "member list"
  | Message messageData
  | GroupInfo string string "member list" string nat
  | GroupDeleted string string string
  | GroupDeleteSuccess string string

text \<open>
  \<open>ToSocket k\<close> is \<^verbatim>\<open>socket.emit\<close> on the socket \<open>k\<close>; \<open>ToRoomExcept r k\<close> is
  \<^verbatim>\<open>socket.to(r).emit\<close> from the socket \<open>k\<close>; \<open>BroadcastExcept k\<close> is
  \<^verbatim>\<open>socket.broadcast.emit\<close>; \<open>ToAll\<close> is \<^verbatim>\<open>io.emit\<close>.
\<close>

datatype emit =
    ToSocket string event
  | ToRoomExcept string string event
  | BroadcastExcept string event
  | ToAll event

text \<open>A task handed to \<^verbatim>\<open>setTimeout\<close>: the delay, the room and the captured members.\<close>

datatype timer = Recheck nat string "member list"

subsection \<open>socket.io operations\<close>

text \<open>\<^verbatim>\<open>socket.join(room)\<close>: the room is a set, joining twice changes nothing.\<close>

definition socket_join :: "string \<Rightarrow> string \<Rightarrow> server \<Rightarrow> server" where
  "socket_join k room s =
     s\<lparr>rooms := (rooms s)(room := (if k \<in> set (rooms s room) then rooms s room
                                    else rooms s room @ [k]))\<rparr>"

text \<open>
  \<^verbatim>\<open>io.sockets.adapter.rooms.get(room)\<close>: the adapter drops a room when its last socket
  leaves, so a room without sockets is \<^verbatim>\<open>undefined\<close>.
\<close>

definition adapter_rooms_get :: "server \<Rightarrow> string \<Rightarrow> string list option" where
  "adapter_rooms_get s room = (if rooms s room = [] then None else Some (rooms s room))"

text \<open>Closing a socket: it leaves every room and the set of connected sockets.\<close>

definition socket_close :: "string \<Rightarrow> server \<Rightarrow> server" where
  "socket_close k s = s\<lparr>sockets := sockets s - {k}, rooms := (\<lambda>r. removeAll k (rooms s r))\<rparr>"

subsection \<open>Resolving a member to a socket\<close>

text \<open>
  The loop the server repeats at every delivery:
  \<^verbatim>\<open>connectedUsers.forEach((user, socketId) => { if (user.id === member.id) memberSocketId = socketId })\<close>,
  the last entry with the id wins. Then \<^verbatim>\<open>if (memberSocketId)\<close> and
  \<^verbatim>\<open>io.sockets.sockets.get(memberSocketId)\<close>.
\<close>

definition findSocketId :: "(string \<times> user) list \<Rightarrow> string \<Rightarrow> string option" where
  "findSocketId users uid =
     foldl (\<lambda>acc p. if u_id (snd p) = uid then Some (fst p) else acc) None users"

definition memberSocket :: "server \<Rightarrow> string \<Rightarrow> string option" where
  "memberSocket s uid =
     (case findSocketId (connectedUsers s) uid of
        None \<Rightarrow> None
      | Some k \<Rightarrow> if k \<noteq> [] \<and> k \<in> sockets s then Some k else None)"

subsection \<open>ensureGroupMembersInRoom (server.js, lines 43 to 89)\<close>

text \<open>One pass over a member list: every member that resolves to a socket joins the room.\<close>

definition joinMembers :: "string \<Rightarrow> member list \<Rightarrow> server \<Rightarrow> server" where
  "joinMembers chatId ms s =
     foldl (\<lambda>acc member.
              case memberSocket acc (m_id member) of
                None \<Rightarrow> acc
              | Some k \<Rightarrow> socket_join k chatId acc) s ms"

definition ensureGroupMembersInRoom :: "string \<Rightarrow> server \<Rightarrow> server" where
  "ensureGroupMembersInRoom chatId s =
     (if \<not> prefix ''group-'' chatId \<or> \<not> Map_has (groupChats s) chatId then s
      else (case Map_get (groupChats s) chatId of
              None \<Rightarrow> s
            | Some grp \<Rightarrow> joinMembers chatId (g_members grp) s))"

subsection \<open>disconnect (server.js, lines 653 to 680)\<close>

definition onlineUsers :: "server \<Rightarrow> (string \<times> string) list" where
  "onlineUsers s =
     map (\<lambda>u. (u_id u, trim (u_username u)))
       (filter (\<lambda>u. u_username u \<noteq> [] \<and> trim (u_username u) \<noteq> [])
          (map snd (connectedUsers s)))"

definition disconnect_handler :: "string \<Rightarrow> server \<Rightarrow> server \<times> emit list" where
  "disconnect_handler sid s =
     (let s' = s\<lparr>connectedUsers := Map_delete sid (connectedUsers s)\<rparr> in
      case Map_get (connectedUsers s) sid of
        None \<Rightarrow> (s', [])
      | Some u \<Rightarrow>
          if u_username u \<noteq> [] \<and> trim (u_username u) \<noteq> []
          then (s', [BroadcastExcept sid (UserLeft (trim (u_username u))),
                     ToAll (OnlineUsers (onlineUsers s'))])
          else (s', []))"

text \<open>
  \<^verbatim>\<open>oldSocket.disconnect(true)\<close>: socket.io closes the socket and fires its
  \<^verbatim>\<open>disconnect\<close> handler.
\<close>

definition socket_disconnect :: "string \<Rightarrow> server \<Rightarrow> server \<times> emit list" where
  "socket_disconnect k s = disconnect_handler k (socket_close k s)"

subsection \<open>join (server.js, lines 96 to 175)\<close>

definition userGroups :: "server \<Rightarrow> string \<Rightarrow> (string \<times> string \<times> member list \<times> string) list" where
  "userGroups s userId =
     map (\<lambda>p. (fst p, g_name (snd p),
                filter (\<lambda>member. m_username member \<noteq> [] \<and> trim (m_username member) \<noteq> [])
                  (g_members (snd p)),
                g_createdBy (snd p)))
       (filter (\<lambda>p. userId \<in> set (map m_id (g_members (snd p)))) (groupChats s))"

definition join_handler ::
  "string \<Rightarrow> nat \<Rightarrow> string \<Rightarrow> string \<Rightarrow> server \<Rightarrow> server \<times> emit list" where
  "join_handler sid now userId username s =
     (if userId = [] \<or> username = [] \<or> trim username = []
      then (s, [ToSocket sid (Error ''Invalid user data'' None)])
      else
        let taken =
              (case findSocketId (connectedUsers s) userId of
                 None \<Rightarrow> (s, [])
               | Some existingSocketId \<Rightarrow>
                   if existingSocketId \<noteq> [] \<and> existingSocketId \<noteq> sid
                   then (let s0 = s\<lparr>connectedUsers :=
                                       Map_delete existingSocketId (connectedUsers s)\<rparr>
                         in if existingSocketId \<in> sockets s0
                            then socket_disconnect existingSocketId s0
                            else (s0, []))
                   else (s, []));
            s1 = fst taken;
            s2 = s1\<lparr>connectedUsers :=
                     Map_set sid \<lparr>u_id = userId, u_username = trim username,
                                  u_socketId = sid, u_joinedAt = now\<rparr> (connectedUsers s1)\<rparr>;
            groups = userGroups s2 userId;
            s3 = (if groups \<noteq> []
                  then foldl (\<lambda>acc g. socket_join sid (fst g) acc) s2 groups
                  else s2)
        in (s3, snd taken
                @ [BroadcastExcept sid (UserJoined (trim username) None),
                   ToAll (OnlineUsers (onlineUsers s2))]
                @ (if groups \<noteq> [] then [ToSocket sid (AvailableGroups groups)] else [])))"

subsection \<open>joinChat (server.js, lines 178 to 365)\<close>

record chatData =
  cd_chatId :: string
  cd_userId :: string
  cd_username :: string
  cd_isGroup :: bool
  cd_groupName :: "string option"
  cd_members :: "member list option"

text \<open>The stored member list: \<^verbatim>\<open>validMembers.map(m => ({id: m.id, username: m.username.trim()}))\<close>\<close>

definition trimmedMembers :: "member list \<Rightarrow> member list" where
  "trimmedMembers ms = map (\<lambda>member. \<lparr>m_id = m_id member, m_username = trim (m_username member)\<rparr>) ms"

definition validMembers :: "member list \<Rightarrow> member list" where
  "validMembers ms = filter (\<lambda>member. m_username member \<noteq> [] \<and> trim (m_username member) \<noteq> []) ms"

text \<open>
  The first loop over the valid members (lines 237 to 268): the member's socket joins the
  room and, for a new group, every member but the caller is told of it.
\<close>

definition addMembers ::
  "chatData \<Rightarrow> string \<Rightarrow> bool \<Rightarrow> member list \<Rightarrow> server \<Rightarrow> server \<times> emit list" where
  "addMembers cd groupName isNewGroup vms s =
     foldl (\<lambda>acc member.
              case memberSocket (fst acc) (m_id member) of
                None \<Rightarrow> acc
              | Some k \<Rightarrow>
                  (socket_join k (cd_chatId cd) (fst acc),
                   snd acc @ (if isNewGroup \<and> m_id member \<noteq> cd_userId cd
                              then [ToSocket k (NewGroupChat (cd_chatId cd) (trim groupName)
                                                  (cd_username cd) (trimmedMembers vms))]
                              else [])))
       (s, []) vms"

text \<open>The last loop (lines 314 to 332): \<^verbatim>\<open>groupChatCreated\<close> to every member but the caller.\<close>

definition announceGroup :: "chatData \<Rightarrow> string \<Rightarrow> member list \<Rightarrow> server \<Rightarrow> emit list" where
  "announceGroup cd groupName vms s =
     concat (map (\<lambda>member.
        if m_id member \<noteq> cd_userId cd
        then (case memberSocket s (m_id member) of
                None \<Rightarrow> []
              | Some k \<Rightarrow> [ToSocket k (GroupChatCreated (cd_chatId cd) (trim groupName)
                                         (cd_username cd) (trimmedMembers vms))])
        else []) vms)"

text \<open>Direct chats (lines 341 to 361): the sockets of the users named in the id join.\<close>

definition joinDirect :: "string \<Rightarrow> server \<Rightarrow> server" where
  "joinDirect chatId s =
     (let userIds = split CHR ''-'' chatId;
          socketIds = map fst (filter (\<lambda>p. u_id (snd p) \<in> set userIds) (connectedUsers s))
      in foldl (\<lambda>acc k. if k \<in> sockets acc then socket_join k chatId acc else acc) s socketIds)"

definition joinChat_handler ::
  "string \<Rightarrow> nat \<Rightarrow> chatData \<Rightarrow> server \<Rightarrow> server \<times> emit list \<times> timer list" where
  "joinChat_handler sid now cd s =
     (let chatId = cd_chatId cd;
          s1 = socket_join sid chatId s;
          s2 = (if \<not> Map_has (chatRooms s1) chatId
                then s1\<lparr>chatRooms := Map_set chatId
                         \<lparr>r_id = chatId, r_isGroup = cd_isGroup cd,
                          r_name = (if cd_isGroup cd then cd_groupName cd else Some ''Direct Chat''),
                          r_createdAt = now,
                          r_members = (if cd_isGroup cd then cd_members cd else Some []),
                          r_messages = []\<rparr> (chatRooms s1)\<rparr>
                else s1);
          userJoined = [ToRoomExcept chatId sid (UserJoined (cd_username cd) (Some chatId))]
      in if cd_isGroup cd \<and> cd_members cd \<noteq> None \<and> the (cd_members cd) \<noteq> []
         then
           (if blank (cd_groupName cd)
            then (s2, [ToSocket sid (Error ''Invalid group name'' None)], [])
            else
              let groupName = the (cd_groupName cd);
                  vms = validMembers (the (cd_members cd))
              in if vms = []
                 then (s2, [ToSocket sid (Error ''No valid members for group'' None)], [])
                 else
                   let isNewGroup = \<not> Map_has (groupChats s2) chatId;
                       s3 = s2\<lparr>groupChats := Map_set chatId
                                \<lparr>g_id = chatId, g_name = trim groupName,
                                 g_createdBy = cd_userId cd, g_createdAt = now,
                                 g_members = trimmedMembers vms\<rparr> (groupChats s2)\<rparr>;
                       added = addMembers cd groupName isNewGroup vms s3;
                       s4 = fst added
                   in (s4,
                       snd added
                         @ (if isNewGroup then announceGroup cd groupName vms s4 else [])
                         @ userJoined,
                       [Recheck 500 chatId vms]))
         else
           (let s3 = (if \<not> cd_isGroup cd \<and> CHR ''-'' \<in> set chatId
                      then joinDirect chatId s2 else s2)
            in (s3, userJoined, [])))"

text \<open>
  The task of the timer (lines 271 to 298), run on the state it finds when it fires. Its
  guard \<^verbatim>\<open>roomSockets && roomSockets.size < validMembers.length\<close> compares the size of
  the room with the number of members captured at the call; the task schedules nothing.
\<close>

definition membersMissing :: "server \<Rightarrow> string \<Rightarrow> member list \<Rightarrow> bool" where
  "membersMissing s chatId vms =
     (case adapter_rooms_get s chatId of
        None \<Rightarrow> False
      | Some roomSockets \<Rightarrow> length roomSockets < length vms)"

definition recheck_fire :: "timer \<Rightarrow> server \<Rightarrow> server \<times> emit list \<times> timer list" where
  "recheck_fire t s =
     (case t of Recheck delay chatId vms \<Rightarrow>
        if membersMissing s chatId vms
        then (joinMembers chatId vms s, [], [])
        else (s, [], []))"

subsection \<open>message (server.js, lines 368 to 473)\<close>

text \<open>
  Lines 374 to 397: the repair of a message without a usable name. \<open>None\<close> is the
  \<^verbatim>\<open>return\<close> of line 394, which ends the handler before anything is sent.
\<close>

definition recoverSender :: "string \<Rightarrow> nat \<Rightarrow> messageData \<Rightarrow> server \<Rightarrow> messageData option" where
  "recoverSender sid now messageData s =
     (if blank (md_username messageData)
      then (case Map_get (connectedUsers s) sid of
              Some u \<Rightarrow>
                if u_username u \<noteq> []
                then Some (messageData\<lparr>md_username := Some (u_username u),
                                        md_userId := Some (u_id u)\<rparr>)
                else if truthy (md_chatId messageData)
                then Some (messageData\<lparr>
                       md_username := (if truthy (md_username messageData)
                                       then md_username messageData else Some ''Unknown User''),
                       md_userId := (if truthy (md_userId messageData)
                                     then md_userId messageData
                                     else Some (''unknown-'' @ digits now))\<rparr>)
                else None
            | None \<Rightarrow>
                if truthy (md_chatId messageData)
                then Some (messageData\<lparr>
                       md_username := (if truthy (md_username messageData)
                                       then md_username messageData else Some ''Unknown User''),
                       md_userId := (if truthy (md_userId messageData)
                                     then md_userId messageData
                                     else Some (''unknown-'' @ digits now))\<rparr>)
                else None)
      else Some messageData)"

text \<open>Lines 431 to 454: the message goes to each member's socket, the sender's id apart.\<close>

definition unicastMembers :: "messageData \<Rightarrow> member list \<Rightarrow> server \<Rightarrow> emit list" where
  "unicastMembers messageData ms s =
     concat (map (\<lambda>member.
        if Some (m_id member) \<noteq> md_userId messageData
        then (case memberSocket s (m_id member) of
                None \<Rightarrow> []
              | Some k \<Rightarrow> [ToSocket k (Message messageData)])
        else []) ms)"

text \<open>Lines 461 to 468: the message is appended to the history of the room, if it has one.\<close>

definition storeHistory :: "string \<Rightarrow> messageData \<Rightarrow> server \<Rightarrow> server" where
  "storeHistory chatId messageData s =
     (case Map_get (chatRooms s) chatId of
        None \<Rightarrow> s
      | Some chatRoom \<Rightarrow>
          s\<lparr>chatRooms := Map_set chatId
               (chatRoom\<lparr>r_messages := r_messages chatRoom @ [messageData]\<rparr>) (chatRooms s)\<rparr>)"

text \<open>Lines 399 to 472, on the repaired message.\<close>

definition route :: "string \<Rightarrow> messageData \<Rightarrow> server \<Rightarrow> server \<times> emit list" where
  "route sid messageData s =
     (case md_chatId messageData of
        None \<Rightarrow> (s, [BroadcastExcept sid (Message messageData)])
      | Some chatId \<Rightarrow>
          if chatId = [] then (s, [BroadcastExcept sid (Message messageData)])
          else
            let s1 = (if prefix ''group-'' chatId
                      then (case adapter_rooms_get s chatId of
                              Some roomSockets \<Rightarrow> ensureGroupMembersInRoom chatId s
                            | None \<Rightarrow>
                                if Map_has (groupChats s) chatId
                                then ensureGroupMembersInRoom chatId s else s)
                      else s);
                out = (if prefix ''group-'' chatId \<and> Map_has (groupChats s1) chatId
                       then (case Map_get (groupChats s1) chatId of
                               None \<Rightarrow> []
                             | Some grp \<Rightarrow> unicastMembers messageData (g_members grp) s1)
                       else [ToRoomExcept chatId sid (Message messageData)])
            in (storeHistory chatId messageData s1, out))"

definition message_handler ::
  "string \<Rightarrow> nat \<Rightarrow> messageData \<Rightarrow> server \<Rightarrow> server \<times> emit list" where
  "message_handler sid now messageData s =
     (case recoverSender sid now messageData s of
        None \<Rightarrow> (s, [])
      | Some fixed \<Rightarrow> route sid fixed s)"

subsection \<open>getGroupInfo (server.js, lines 564 to 581)\<close>

definition getGroupInfo_handler :: "string \<Rightarrow> string \<Rightarrow> server \<Rightarrow> server \<times> emit list" where
  "getGroupInfo_handler sid chatId s =
     (case Map_get (groupChats s) chatId of
        Some grp \<Rightarrow>
          (socket_join sid chatId s,
           [ToSocket sid (GroupInfo chatId (g_name grp) (g_members grp)
                            (g_createdBy grp) (g_createdAt grp))])
      | None \<Rightarrow> (s, []))"

subsection \<open>deleteGroup (server.js, lines 584 to 650)\<close>

text \<open>Lines 606 to 627: the notice to each member of the deleted record.\<close>

definition notifyDeleted :: "string \<Rightarrow> string \<Rightarrow> string \<Rightarrow> member list \<Rightarrow> server \<Rightarrow> emit list" where
  "notifyDeleted chatId groupName username ms s =
     concat (map (\<lambda>member.
        case memberSocket s (m_id member) of
          None \<Rightarrow> []
        | Some k \<Rightarrow> [ToSocket k (GroupDeleted chatId groupName username)]) ms)"

definition deleteGroup_handler ::
  "string \<Rightarrow> string \<Rightarrow> string \<Rightarrow> string \<Rightarrow> server \<Rightarrow> server \<times> emit list" where
  "deleteGroup_handler sid chatId userId username s =
     (case Map_get (groupChats s) chatId of
        Some grp \<Rightarrow>
          if g_createdBy grp = userId
          then
            (let s' = s\<lparr>groupChats := Map_delete chatId (groupChats s),
                        chatRooms := Map_delete chatId (chatRooms s)\<rparr>
             in (s', notifyDeleted chatId (g_name grp) username (g_members grp) s'
                     @ [ToSocket sid (GroupDeleteSuccess chatId (g_name grp))]))
          else (s, [ToSocket sid (Error ''You are not authorized to delete this group''
                                    (Some ''unauthorized_delete''))])
      | None \<Rightarrow> (s, [ToSocket sid (Error ''Group not found'' (Some ''group_not_found''))]))"

subsection \<open>Sequences of join events\<close>

text \<open>A join event: the socket it arrives on, the clock, and the payload.\<close>

record joinEvent =
  je_socket :: string
  je_now :: nat
  je_userId :: string
  je_username :: string

definition join_step :: "joinEvent \<Rightarrow> server \<Rightarrow> server" where
  "join_step e s = fst (join_handler (je_socket e) (je_now e) (je_userId e) (je_username e) s)"

definition run_joins :: "joinEvent list \<Rightarrow> server \<Rightarrow> server" where
  "run_joins es s = foldl (\<lambda>acc e. join_step e acc) s es"

text \<open>The sockets registered for a user id, and the registry's invariant.\<close>

definition sessionsOf :: "server \<Rightarrow> string \<Rightarrow> string list" where
  "sessionsOf s userId = map fst (filter (\<lambda>p. u_id (snd p) = userId) (connectedUsers s))"

definition oneSessionPerUser :: "server \<Rightarrow> bool" where
  "oneSessionPerUser s = distinct (map (\<lambda>p. u_id (snd p)) (connectedUsers s))"

text \<open>
  A well-formed registry: the keys of the Map are distinct, no two sessions have the same
  user id, and no socket id is empty (socket.io's ids never are).
\<close>

definition registryOk :: "(string \<times> user) list \<Rightarrow> bool" where
  "registryOk cu = (distinct (map fst cu) \<and> distinct (map (\<lambda>p. u_id (snd p)) cu)
                    \<and> [] \<notin> set (map fst cu))"

text \<open>
  What lines 106 to 135 do to the registry on a valid join: the entry found for the user
  id is deleted when it belongs to another socket, then the new entry is set.
\<close>

definition joined :: "string \<Rightarrow> nat \<Rightarrow> string \<Rightarrow> string \<Rightarrow> (string \<times> user) list \<Rightarrow> (string \<times> user) list" where
  "joined sid now userId username cu =
     Map_set sid \<lparr>u_id = userId, u_username = trim username, u_socketId = sid, u_joinedAt = now\<rparr>
       (case findSocketId cu userId of
          None \<Rightarrow> cu
        | Some old \<Rightarrow> if old \<noteq> [] \<and> old \<noteq> sid then Map_delete old cu else cu)"

subsection \<open>A small server state for the examples\<close>

text \<open>
  Alice on socket \<open>s1\<close> and Bob on socket \<open>s2\<close> are registered, and both are in the room
  of the group \<open>group-1\<close>, which Alice created.
\<close>

definition alice :: member where
  "alice = \<lparr>m_id = ''alice'', m_username = ''Alice''\<rparr>"

definition bob :: member where
  "bob = \<lparr>m_id = ''bob'', m_username = ''Bob''\<rparr>"

definition team :: group where
  "team = \<lparr>g_id = ''group-1'', g_name = ''Team'', g_createdBy = ''alice'', g_createdAt = 1,
            g_members = [alice, bob]\<rparr>"

definition demo :: server where
  "demo = \<lparr>connectedUsers =
             [(''s1'', \<lparr>u_id = ''alice'', u_username = ''Alice'', u_socketId = ''s1'', u_joinedAt = 0\<rparr>),
              (''s2'', \<lparr>u_id = ''bob'', u_username = ''Bob'', u_socketId = ''s2'', u_joinedAt = 0\<rparr>)],
           chatRooms =
             [(''group-1'', \<lparr>r_id = ''group-1'', r_isGroup = True, r_name = Some ''Team'',
                             r_createdAt = 1, r_members = Some [alice, bob], r_messages = []\<rparr>)],
           groupChats = [(''group-1'', team)],
           sockets = {''s1'', ''s2''},
           rooms = (\<lambda>r. if r = ''group-1'' then [''s1'', ''s2''] else [])\<rparr>"

text \<open>The example state with Alice alone in the group's room.\<close>

definition half :: server where
  "half = demo\<lparr>rooms := (\<lambda>r. if r = ''group-1'' then [''s1''] else [])\<rparr>"

text \<open>
  Two \<open>joinChat\<close> payloads from Bob: he opens Alice's group with its name and members,
  and he asks for a group whose name is blank.
\<close>

definition bobOpens :: chatData where
  "bobOpens = \<lparr>cd_chatId = ''group-1'', cd_userId = ''bob'', cd_username = ''Bob'',
                cd_isGroup = True, cd_groupName = Some ''Team'', cd_members = Some [alice, bob]\<rparr>"

definition badGroup :: chatData where
  "badGroup = \<lparr>cd_chatId = ''group-2'', cd_userId = ''bob'', cd_username = ''Bob'',
                cd_isGroup = True, cd_groupName = Some ''  '', cd_members = Some [alice, bob]\<rparr>"

text \<open>
  A state in which the group record has an id without the \<open>group-\<close> prefix, and the
  messages of the examples.
\<close>

definition plain :: server where
  "plain = demo\<lparr>groupChats := [(''team'', team\<lparr>g_id := ''team''\<rparr>)],
                 chatRooms := [],
                 rooms := (\<lambda>r. if r = ''team'' then [''s1'', ''s2''] else [])\<rparr>"

definition hello :: messageData where
  "hello = \<lparr>md_chatId = Some ''team'', md_username = Some ''Alice'', md_userId = Some ''alice'',
             md_text = ''hello''\<rparr>"

definition toGroup :: messageData where
  "toGroup = \<lparr>md_chatId = Some ''group-1'', md_username = Some ''Alice'', md_userId = Some ''alice'',
             md_text = ''hello''\<rparr>"

definition anon :: messageData where
  "anon = \<lparr>md_chatId = None, md_username = None, md_userId = None, md_text = ''hi''\<rparr>"

definition anonDirect :: messageData where
  "anonDirect = \<lparr>md_chatId = Some ''alice-bob'', md_username = None, md_userId = None,
                  md_text = ''hi''\<rparr>"

text \<open>
  Three join events, Alice on \<open>s1\<close>, Bob on \<open>s2\<close> and Alice again on \<open>s3\<close>, and the
  empty server with the three sockets connected.
\<close>

definition aliceFirst :: joinEvent where
  "aliceFirst = \<lparr>je_socket = ''s1'', je_now = 1, je_userId = ''alice'', je_username = ''Alice''\<rparr>"

definition bobJoins :: joinEvent where
  "bobJoins = \<lparr>je_socket = ''s2'', je_now = 2, je_userId = ''bob'', je_username = ''Bob''\<rparr>"

definition aliceAgain :: joinEvent where
  "aliceAgain = \<lparr>je_socket = ''s3'', je_now = 3, je_userId = ''alice'', je_username = '' Alice ''\<rparr>"

definition connected :: server where
  "connected = initial\<lparr>sockets := {''s1'', ''s2'', ''s3''}\<rparr>"

text \<open>
  Alice registers on \<open>s1\<close>, creates the group of Alice and Bob while Bob is away, and then
  her socket closes.
\<close>

definition aliceCreates :: chatData where
  "aliceCreates = \<lparr>cd_chatId = ''group-1'', cd_userId = ''alice'', cd_username = ''Alice'',
                    cd_isGroup = True, cd_groupName = Some ''Team'',
                    cd_members = Some [alice, bob]\<rparr>"

definition creatorLeft :: server where
  "creatorLeft =
     fst (socket_disconnect ''s1''
            (fst (joinChat_handler ''s1'' 2 aliceCreates (join_step aliceFirst connected))))"

section \<open>Properties\<close>

subsection \<open>Maps, rooms and member resolution\<close>

lemma Map_get_Map_set:
  "Map_get (Map_set k v m) k' = (if k' = k then Some v else Map_get m k')"
  by (induction m) (auto simp: Map_get_def)

lemma Map_get_Map_delete:
  "Map_get (Map_delete k m) k' = (if k' = k then None else Map_get m k')"
  by (induction m) (auto simp: Map_get_def Map_delete_def)

lemma socket_join_fields [simp]:
  "connectedUsers (socket_join k r s) = connectedUsers s"
  "chatRooms (socket_join k r s) = chatRooms s"
  "groupChats (socket_join k r s) = groupChats s"
  "sockets (socket_join k r s) = sockets s"
  by (simp_all add: socket_join_def)

lemma rooms_socket_join:
  "set (rooms (socket_join k r s) r') = (if r' = r then insert k (set (rooms s r')) else set (rooms s r'))"
  by (auto simp: socket_join_def)

lemma memberSocket_socket_join [simp]:
  "memberSocket (socket_join k r s) uid = memberSocket s uid"
  by (simp add: memberSocket_def split: option.splits)

lemma joinMembers_fields [simp]:
  "connectedUsers (joinMembers c ms s) = connectedUsers s"
  "chatRooms (joinMembers c ms s) = chatRooms s"
  "groupChats (joinMembers c ms s) = groupChats s"
  "sockets (joinMembers c ms s) = sockets s"
  unfolding joinMembers_def
  by (induction ms arbitrary: s; simp split: option.splits)+

lemma memberSocket_joinMembers [simp]:
  "memberSocket (joinMembers c ms s) uid = memberSocket s uid"
  by (simp add: memberSocket_def split: option.splits)

lemma joinMembers_Nil [simp]: "joinMembers c [] s = s"
  by (simp add: joinMembers_def)

lemma joinMembers_Cons:
  "joinMembers c (m # ms) s =
     joinMembers c ms (case memberSocket s (m_id m) of None \<Rightarrow> s | Some k \<Rightarrow> socket_join k c s)"
  by (simp add: joinMembers_def)

lemma rooms_joinMembers:
  "set (rooms (joinMembers c ms s) r) =
     (if r = c then set (rooms s r) \<union> {k. \<exists>m \<in> set ms. memberSocket s (m_id m) = Some k}
      else set (rooms s r))"
proof (induction ms arbitrary: s)
  case Nil
  then show ?case by simp
next
  case (Cons m ms)
  show ?case
    by (cases "memberSocket s (m_id m)") (auto simp: joinMembers_Cons Cons.IH rooms_socket_join)
qed

lemma memberSocket_demo:
  "memberSocket demo ''alice'' = Some ''s1''" "memberSocket demo ''bob'' = Some ''s2''"
  by (simp_all add: memberSocket_def findSocketId_def demo_def)


lemma addMembers_fields [simp]:
  "connectedUsers (fst (addMembers cd gn new vms s)) = connectedUsers s"
  "chatRooms (fst (addMembers cd gn new vms s)) = chatRooms s"
  "groupChats (fst (addMembers cd gn new vms s)) = groupChats s"
  "sockets (fst (addMembers cd gn new vms s)) = sockets s"
proof -
  have "connectedUsers (fst (foldl f (s, out) ms)) = connectedUsers s
      \<and> chatRooms (fst (foldl f (s, out) ms)) = chatRooms s
      \<and> groupChats (fst (foldl f (s, out) ms)) = groupChats s
      \<and> sockets (fst (foldl f (s, out) ms)) = sockets s"
    if f: "f = (\<lambda>acc member.
              case memberSocket (fst acc) (m_id member) of
                None \<Rightarrow> acc
              | Some k \<Rightarrow>
                  (socket_join k (cd_chatId cd) (fst acc),
                   snd acc @ (if new \<and> m_id member \<noteq> cd_userId cd
                              then [ToSocket k (NewGroupChat (cd_chatId cd) (trim gn)
                                                  (cd_username cd) (trimmedMembers vms))]
                              else [])))" for f out ms
    unfolding f by (induction ms arbitrary: s out) (simp_all split: option.splits)
  from this [OF refl] show
    "connectedUsers (fst (addMembers cd gn new vms s)) = connectedUsers s"
    "chatRooms (fst (addMembers cd gn new vms s)) = chatRooms s"
    "groupChats (fst (addMembers cd gn new vms s)) = groupChats s"
    "sockets (fst (addMembers cd gn new vms s)) = sockets s"
    unfolding addMembers_def by blast+
qed

lemma joinChat_group_stored:
  assumes "cd_isGroup cd" and "cd_members cd = Some ms" and "ms \<noteq> []"
    and "\<not> blank (cd_groupName cd)" and "validMembers ms \<noteq> []"
  shows "groupChats (fst (joinChat_handler sid now cd s)) =
           Map_set (cd_chatId cd)
             \<lparr>g_id = cd_chatId cd, g_name = trim (the (cd_groupName cd)),
              g_createdBy = cd_userId cd, g_createdAt = now,
              g_members = trimmedMembers (validMembers ms)\<rparr> (groupChats s)"
    and "snd (snd (joinChat_handler sid now cd s)) = [Recheck 500 (cd_chatId cd) (validMembers ms)]"
  using assms by (simp_all add: joinChat_handler_def Let_def)

lemma memberSocket_cong:
  "connectedUsers s' = connectedUsers s \<Longrightarrow> sockets s' = sockets s \<Longrightarrow>
   memberSocket s' uid = memberSocket s uid"
  by (simp add: memberSocket_def split: option.splits)

lemma ensure_fields [simp]:
  "connectedUsers (ensureGroupMembersInRoom c s) = connectedUsers s"
  "chatRooms (ensureGroupMembersInRoom c s) = chatRooms s"
  "groupChats (ensureGroupMembersInRoom c s) = groupChats s"
  "sockets (ensureGroupMembersInRoom c s) = sockets s"
  by (simp_all add: ensureGroupMembersInRoom_def split: option.splits)

lemma storeHistory_fields [simp]:
  "connectedUsers (storeHistory c m s) = connectedUsers s"
  "groupChats (storeHistory c m s) = groupChats s"
  "sockets (storeHistory c m s) = sockets s"
  "rooms (storeHistory c m s) = rooms s"
  by (simp_all add: storeHistory_def split: option.splits)

lemma unicastMembers_cong:
  "(\<And>uid. memberSocket s' uid = memberSocket s uid) \<Longrightarrow>
   unicastMembers m ms s' = unicastMembers m ms s"
  by (simp add: unicastMembers_def cong: if_cong)

lemma unicastMembers_Nil: "unicastMembers fixed [] s = []"
  by (simp add: unicastMembers_def)

lemma unicastMembers_skip:
  "Some (m_id m) = md_userId fixed \<or> memberSocket s (m_id m) = None \<Longrightarrow>
   unicastMembers fixed (m # ms) s = unicastMembers fixed ms s"
  by (auto simp add: unicastMembers_def)

lemma unicastMembers_send:
  "Some (m_id m) \<noteq> md_userId fixed \<Longrightarrow> memberSocket s (m_id m) = Some k \<Longrightarrow>
   unicastMembers fixed (m # ms) s = ToSocket k (Message fixed) # unicastMembers fixed ms s"
  by (simp add: unicastMembers_def)

lemma unicastMembers_mem:
  "e \<in> set (unicastMembers fixed ms s) \<longleftrightarrow>
     (\<exists>m \<in> set ms. \<exists>k. Some (m_id m) \<noteq> md_userId fixed
        \<and> memberSocket s (m_id m) = Some k \<and> e = ToSocket k (Message fixed))"
proof (induction ms)
  case Nil
  show ?case by (simp add: unicastMembers_Nil)
next
  case (Cons m ms)
  consider (skip) "Some (m_id m) = md_userId fixed \<or> memberSocket s (m_id m) = None"
    | (send) k where "Some (m_id m) \<noteq> md_userId fixed" "memberSocket s (m_id m) = Some k"
    by (cases "memberSocket s (m_id m)") auto
  then show ?case
  proof cases
    case skip
    from unicastMembers_skip [OF skip] Cons.IH skip show ?thesis
      by auto
  next
    case send
    from unicastMembers_send [OF send] Cons.IH send show ?thesis
      by auto
  qed
qed

lemma recoverSender_chat:
  assumes "truthy (md_chatId md)"
  shows "\<exists>fixed. recoverSender sid now md s = Some fixed \<and> md_chatId fixed = md_chatId md"
  using assms by (auto simp: recoverSender_def split: option.splits)

lemma recoverSender_cong:
  "connectedUsers s' = connectedUsers s \<Longrightarrow> recoverSender sid now md s' = recoverSender sid now md s"
  by (simp add: recoverSender_def)

lemma route_group:
  assumes "prefix ''group-'' chatId" and "Map_get (groupChats s) chatId = Some grp"
    and "md_chatId fixed = Some chatId"
  shows "route sid fixed s =
           (storeHistory chatId fixed (ensureGroupMembersInRoom chatId s),
            unicastMembers fixed (g_members grp) s)"
proof -
  from assms(1) have ne: "chatId \<noteq> []" by auto
  have has: "Map_has (groupChats s) chatId"
    using assms(2) by (simp add: Map_has_def)
  have u: "unicastMembers fixed (g_members grp) (ensureGroupMembersInRoom chatId s)
         = unicastMembers fixed (g_members grp) s"
    by (rule unicastMembers_cong, rule memberSocket_cong) simp_all
  show ?thesis
    using assms ne has u
    by (simp add: route_def Let_def Map_has_def split: option.splits)
qed

lemma rooms_ensure:
  assumes "prefix ''group-'' chatId" and "Map_get (groupChats s) chatId = Some grp"
  shows "set (rooms (ensureGroupMembersInRoom chatId s) chatId) =
           set (rooms s chatId) \<union> {k. \<exists>m \<in> set (g_members grp). memberSocket s (m_id m) = Some k}"
  using assms by (simp add: ensureGroupMembersInRoom_def Map_has_def rooms_joinMembers)

lemma route_plain:
  "(md_chatId m = Some c \<and> c \<noteq> [] \<and> \<not> (prefix ''group-'' c \<and> Map_has (groupChats s) c) \<longrightarrow>
      snd (route sid m s) = [ToRoomExcept c sid (Message m)])
   \<and> (\<not> truthy (md_chatId m) \<longrightarrow> route sid m s = (s, [BroadcastExcept sid (Message m)]))"
  by (auto simp: route_def Let_def truthy_def split: option.splits)

lemma digits_42: "digits 42 = ''42''"
  by code_simp

subsection \<open>The registry\<close>

lemma findSocketId_snoc:
  "findSocketId (xs @ [p]) uid = (if u_id (snd p) = uid then Some (fst p) else findSocketId xs uid)"
  by (simp add: findSocketId_def)

lemma findSocketId_None:
  "findSocketId xs uid = None \<longleftrightarrow> uid \<notin> set (map (\<lambda>p. u_id (snd p)) xs)"
  by (induction xs rule: rev_induct) (auto simp: findSocketId_snoc, simp add: findSocketId_def)

lemma findSocketId_Some:
  "findSocketId xs uid = Some k \<Longrightarrow> \<exists>u. (k, u) \<in> set xs \<and> u_id u = uid"
proof (induction xs rule: rev_induct)
  case Nil
  then show ?case by (simp add: findSocketId_def)
next
  case (snoc p xs)
  then show ?case
    by (cases p) (auto simp: findSocketId_snoc split: if_splits)
qed

lemma distinct_ids_unique:
  "distinct (map (\<lambda>p. u_id (snd p)) xs) \<Longrightarrow> (k, u) \<in> set xs \<Longrightarrow> (k', u') \<in> set xs \<Longrightarrow>
   u_id u = u_id u' \<Longrightarrow> k = k' \<and> u = u'"
  by (induction xs) (auto simp: image_iff)

lemma map_fst_Map_set:
  "map fst (Map_set k v m) = (if k \<in> set (map fst m) then map fst m else map fst m @ [k])"
  by (induction m) auto

lemma set_Map_set:
  "distinct (map fst m) \<Longrightarrow> set (Map_set k v m) = insert (k, v) {p \<in> set m. fst p \<noteq> k}"
  by (induction m) (auto simp: image_iff)

lemma distinct_ids_Map_set:
  "distinct (map fst m) \<Longrightarrow> distinct (map (\<lambda>p. u_id (snd p)) m) \<Longrightarrow>
   (\<forall>p \<in> set m. fst p \<noteq> k \<longrightarrow> u_id (snd p) \<noteq> u_id v) \<Longrightarrow>
   distinct (map (\<lambda>p. u_id (snd p)) (Map_set k v m))"
proof (induction m)
  case Nil
  then show ?case by simp
next
  case (Cons p m)
  show ?case
  proof (cases "fst p = k")
    case True
    from Cons.prems(1) True have "\<forall>q \<in> set m. fst q \<noteq> k"
      by (auto simp: image_iff)
    with Cons.prems(3) have "\<forall>q \<in> set m. u_id (snd q) \<noteq> u_id v"
      by simp
    with Cons.prems(2) True show ?thesis
      by (auto simp: image_iff)
  next
    case False
    with Cons.prems have "u_id (snd p) \<notin> (\<lambda>p. u_id (snd p)) ` set (Map_set k v m)"
      by (auto simp: set_Map_set image_iff)
    with False Cons show ?thesis
      by simp
  qed
qed

lemma registryOk_Map_delete: "registryOk cu \<Longrightarrow> registryOk (Map_delete k cu)"
  by (auto simp: registryOk_def Map_delete_def distinct_map_filter)

lemma registryOk_Map_set:
  "registryOk cu \<Longrightarrow> k \<noteq> [] \<Longrightarrow> (\<forall>p \<in> set cu. fst p \<noteq> k \<longrightarrow> u_id (snd p) \<noteq> u_id v) \<Longrightarrow>
   registryOk (Map_set k v cu)"
  unfolding registryOk_def
  by (simp add: distinct_ids_Map_set map_fst_Map_set)

lemma filter_unique:
  "distinct (map f xs) \<Longrightarrow> p \<in> set xs \<Longrightarrow> filter (\<lambda>q. f q = f p) xs = [p]"
proof (induction xs)
  case Nil
  then show ?case by simp
next
  case (Cons x xs)
  show ?case
  proof (cases "x = p")
    case True
    with Cons.prems have "\<forall>q \<in> set xs. f q \<noteq> f p" by (auto simp: image_iff)
    then have "filter (\<lambda>q. f q = f p) xs = []" by (simp add: filter_empty_conv)
    with True show ?thesis by simp
  next
    case False
    with Cons show ?thesis by (auto simp: image_iff)
  qed
qed

lemma foldl_socket_join_fields [simp]:
  "connectedUsers (foldl (\<lambda>acc g. socket_join sid (fst g) acc) s gs) = connectedUsers s"
  "sockets (foldl (\<lambda>acc g. socket_join sid (fst g) acc) s gs) = sockets s"
  by (induction gs arbitrary: s) simp_all

lemma Map_delete_idem: "Map_delete k (Map_delete k m) = Map_delete k m"
  by (simp add: Map_delete_def)

lemma join_connectedUsers:
  assumes "userId \<noteq> []" and "username \<noteq> []" and "trim username \<noteq> []"
  shows "connectedUsers (fst (join_handler sid now userId username s))
           = joined sid now userId username (connectedUsers s)"
  using assms
  by (simp add: join_handler_def joined_def Let_def socket_disconnect_def disconnect_handler_def
      socket_close_def Map_get_Map_delete Map_delete_idem split: option.splits)

lemma join_sockets:
  assumes "userId \<noteq> []" and "username \<noteq> []" and "trim username \<noteq> []"
  shows "sockets (fst (join_handler sid now userId username s))
           = (case findSocketId (connectedUsers s) userId of
                None \<Rightarrow> sockets s
              | Some old \<Rightarrow> if old \<noteq> [] \<and> old \<noteq> sid then sockets s - {old} else sockets s)"
  using assms
  by (auto simp add: join_handler_def Let_def socket_disconnect_def disconnect_handler_def
      socket_close_def Map_get_Map_delete split: option.splits)

lemma join_invalid:
  "userId = [] \<or> username = [] \<or> trim username = [] \<Longrightarrow>
   fst (join_handler sid now userId username s) = s"
  by (auto simp: join_handler_def)

lemma registryOk_joined:
  assumes ok: "registryOk cu" and sid: "sid \<noteq> []"
  shows "registryOk (joined sid now userId username cu)"
proof -
  let ?new = "\<lparr>u_id = userId, u_username = trim username, u_socketId = sid, u_joinedAt = now\<rparr>"
  show ?thesis
  proof (cases "findSocketId cu userId")
    case None
    then have "\<forall>p \<in> set cu. u_id (snd p) \<noteq> userId"
      by (auto simp: findSocketId_None)
    with ok sid None show ?thesis
      by (simp add: joined_def registryOk_Map_set)
  next
    case (Some old)
    then obtain u where u: "(old, u) \<in> set cu" "u_id u = userId"
      using findSocketId_Some by blast
    from ok u have ne: "old \<noteq> []"
      by (force simp: registryOk_def)
    have uniq: "fst p = old" if "p \<in> set cu" "u_id (snd p) = userId" for p
      using distinct_ids_unique [of cu "fst p" "snd p" old u] that u ok
      by (simp add: registryOk_def)
    show ?thesis
    proof (cases "old = sid")
      case True
      with uniq have "\<forall>p \<in> set cu. fst p \<noteq> sid \<longrightarrow> u_id (snd p) \<noteq> u_id ?new"
        by auto
      with ok sid Some True show ?thesis
        by (simp add: joined_def registryOk_Map_set)
    next
      case False
      from uniq have "\<forall>p \<in> set (Map_delete old cu). fst p \<noteq> sid \<longrightarrow> u_id (snd p) \<noteq> u_id ?new"
        by (auto simp: Map_delete_def)
      with ok sid Some False ne show ?thesis
        by (simp add: joined_def registryOk_Map_set registryOk_Map_delete)
    qed
  qed
qed

lemma joined_has:
  "distinct (map fst cu) \<Longrightarrow>
   (sid, \<lparr>u_id = userId, u_username = trim username, u_socketId = sid, u_joinedAt = now\<rparr>)
     \<in> set (joined sid now userId username cu)"
  by (auto simp: joined_def set_Map_set Map_delete_def distinct_map_filter split: option.splits)

lemma joined_keys:
  "distinct (map fst cu) \<Longrightarrow> findSocketId cu userId = Some old \<Longrightarrow> old \<noteq> [] \<Longrightarrow> old \<noteq> sid \<Longrightarrow>
   old \<notin> fst ` set (joined sid now userId username cu)"
  by (auto simp: joined_def set_Map_set Map_delete_def distinct_map_filter)


lemma socket_disconnect_fields:
  "groupChats (fst (socket_disconnect k s)) = groupChats s"
  "chatRooms (fst (socket_disconnect k s)) = chatRooms s"
  "rooms (fst (socket_disconnect k s)) r = removeAll k (rooms s r)"
  "sockets (fst (socket_disconnect k s)) = sockets s - {k}"
  by (simp_all add: socket_disconnect_def disconnect_handler_def socket_close_def Let_def
      split: option.splits)

lemma join_step_ok:
  assumes "registryOk (connectedUsers s)" and "je_socket e \<noteq> []"
  shows "registryOk (connectedUsers (join_step e s))"
proof (cases "je_userId e = [] \<or> je_username e = [] \<or> trim (je_username e) = []")
  case True
  with assms(1) show ?thesis
    by (simp add: join_step_def join_invalid)
next
  case False
  with assms show ?thesis
    by (simp add: join_step_def join_connectedUsers registryOk_joined)
qed

lemma run_joins_ok:
  "registryOk (connectedUsers s) \<Longrightarrow> \<forall>e \<in> set es. je_socket e \<noteq> [] \<Longrightarrow>
   registryOk (connectedUsers (run_joins es s))"
  unfolding run_joins_def
  by (induction es arbitrary: s) (simp_all add: join_step_ok)

lemma trim_Alice: "trim '' Alice '' = ''Alice''" "trim ''Alice'' = ''Alice''" "trim ''Bob'' = ''Bob''"
  by (simp_all add: trim_def is_ws_def)

lemma run_two:
  "run_joins [aliceFirst, bobJoins] connected =
     connected\<lparr>connectedUsers :=
       [(''s1'', \<lparr>u_id = ''alice'', u_username = ''Alice'', u_socketId = ''s1'', u_joinedAt = 1\<rparr>),
        (''s2'', \<lparr>u_id = ''bob'', u_username = ''Bob'', u_socketId = ''s2'', u_joinedAt = 2\<rparr>)]\<rparr>"
  by (simp add: run_joins_def join_step_def join_handler_def aliceFirst_def bobJoins_def
      connected_def initial_def findSocketId_def userGroups_def Let_def trim_Alice)

subsection \<open>The direct-chat id\<close>

text \<open>
  C9. The direct-conversation id is a symmetric function of the two participant ids:
  the id computed by \<open>a\<close> for a chat with \<open>b\<close> is the id computed by \<open>b\<close> for a chat
  with \<open>a\<close>, because the two ids are sorted before they are joined.
\<close>

theorem directChatId_symmetric: "directChatId a b = directChatId b a"
proof -
  have "sort [a, b] = sort [b, a]"
    by (cases a b rule: linorder_cases) auto
  then show ?thesis
    by (simp add: directChatId_def)
qed

subsection \<open>One session for each user\<close>

text \<open>
  C2. Start from a server whose registry is empty and let any sequence of \<open>join\<close> events
  arrive, valid or not, on sockets with socket.io's non-empty ids. After the sequence no
  two registered sessions have the same user id. If one more valid \<open>join\<close> follows, the
  sessions registered for its user id are then the new socket alone, and a session that
  another socket held for that user id is gone from the registry and its socket has been
  disconnected.
\<close>

theorem one_session_per_user:
  assumes "connectedUsers s0 = []" and "\<forall>x \<in> set es. je_socket x \<noteq> []" and "je_socket e \<noteq> []"
  shows "oneSessionPerUser (run_joins es s0)
    \<and> (je_userId e \<noteq> [] \<and> je_username e \<noteq> [] \<and> trim (je_username e) \<noteq> [] \<longrightarrow>
         sessionsOf (join_step e (run_joins es s0)) (je_userId e) = [je_socket e]
         \<and> (\<forall>old \<in> set (sessionsOf (run_joins es s0) (je_userId e)). old \<noteq> je_socket e \<longrightarrow>
               old \<notin> fst ` set (connectedUsers (join_step e (run_joins es s0)))
               \<and> old \<notin> sockets (join_step e (run_joins es s0))))"
proof -
  let ?s = "run_joins es s0"
  let ?cu = "connectedUsers ?s"
  let ?sid = "je_socket e" and ?uid = "je_userId e"
  let ?new = "\<lparr>u_id = ?uid, u_username = trim (je_username e), u_socketId = ?sid,
               u_joinedAt = je_now e\<rparr>"
  have "registryOk (connectedUsers s0)"
    using assms(1) by (simp add: registryOk_def)
  then have ok: "registryOk ?cu"
    using assms(2) by (rule run_joins_ok)
  then have one: "oneSessionPerUser ?s"
    by (simp add: oneSessionPerUser_def registryOk_def)
  have two: "sessionsOf (join_step e ?s) ?uid = [?sid]
         \<and> (\<forall>old \<in> set (sessionsOf ?s ?uid). old \<noteq> ?sid \<longrightarrow>
               old \<notin> fst ` set (connectedUsers (join_step e ?s))
               \<and> old \<notin> sockets (join_step e ?s))"
    if valid: "?uid \<noteq> [] \<and> je_username e \<noteq> [] \<and> trim (je_username e) \<noteq> []"
  proof -
    let ?cu' = "joined ?sid (je_now e) ?uid (je_username e) ?cu"
    have cu': "connectedUsers (join_step e ?s) = ?cu'"
      using valid by (simp add: join_step_def join_connectedUsers)
    have ok': "registryOk ?cu'"
      using ok assms(3) by (rule registryOk_joined)
    have mem: "(?sid, ?new) \<in> set ?cu'"
      using ok by (simp add: joined_has registryOk_def)
    have "filter (\<lambda>q. u_id (snd q) = u_id (snd (?sid, ?new))) ?cu' = [(?sid, ?new)]"
      using ok' mem by (intro filter_unique) (simp_all add: registryOk_def)
    then have a: "sessionsOf (join_step e ?s) ?uid = [?sid]"
      by (simp add: sessionsOf_def cu')
    have b: "old \<notin> fst ` set (connectedUsers (join_step e ?s)) \<and> old \<notin> sockets (join_step e ?s)"
      if old: "old \<in> set (sessionsOf ?s ?uid)" "old \<noteq> ?sid" for old
    proof -
      from old(1) obtain u where u: "(old, u) \<in> set ?cu" "u_id u = ?uid"
        by (auto simp: sessionsOf_def)
      then have "?uid \<in> set (map (\<lambda>p. u_id (snd p)) ?cu)"
        by (auto simp: image_iff intro!: bexI [of _ "(old, u)"])
      then have "findSocketId ?cu ?uid \<noteq> None"
        by (simp only: findSocketId_None not_not)
      then obtain k where k: "findSocketId ?cu ?uid = Some k" by blast
      then obtain u' where u': "(k, u') \<in> set ?cu" "u_id u' = ?uid"
        using findSocketId_Some by blast
      from ok u u' have "k = old"
        using distinct_ids_unique [of ?cu k u' old u] by (simp add: registryOk_def)
      with k have f: "findSocketId ?cu ?uid = Some old" by simp
      from ok u(1) have ne: "old \<noteq> []"
        by (force simp: registryOk_def)
      from ok have d: "distinct (map fst ?cu)"
        by (simp add: registryOk_def)
      have "old \<notin> fst ` set ?cu'"
        using d f ne old(2) by (rule joined_keys)
      moreover have "old \<notin> sockets (join_step e ?s)"
        using valid f ne old(2) by (simp add: join_step_def join_sockets)
      ultimately show ?thesis
        by (simp add: cu')
    qed
    from a b show ?thesis by blast
  qed
  from one two show ?thesis by blast
qed

text \<open>
  Alice joins on \<open>s1\<close>, Bob on \<open>s2\<close>, then Alice joins again on \<open>s3\<close>: her session is
  \<open>s3\<close> alone, and \<open>s1\<close> is disconnected.
\<close>

theorem one_session_per_user_witness:
  "connectedUsers connected = [] \<and> je_socket aliceFirst \<noteq> [] \<and> je_socket bobJoins \<noteq> []
   \<and> je_socket aliceAgain \<noteq> []
   \<and> oneSessionPerUser (run_joins [aliceFirst, bobJoins] connected)
   \<and> sessionsOf (run_joins [aliceFirst, bobJoins] connected) ''alice'' = [''s1'']
   \<and> sessionsOf (join_step aliceAgain (run_joins [aliceFirst, bobJoins] connected)) ''alice'' = [''s3'']
   \<and> ''s1'' \<notin> sockets (join_step aliceAgain (run_joins [aliceFirst, bobJoins] connected))"
proof -
  have h1: "connectedUsers connected = []"
    by (simp add: connected_def initial_def)
  have h2: "\<forall>x \<in> set [aliceFirst, bobJoins]. je_socket x \<noteq> []"
    by (simp add: aliceFirst_def bobJoins_def)
  have h3: "je_socket aliceAgain \<noteq> []"
    by (simp add: aliceAgain_def)
  have v: "je_userId aliceAgain = ''alice''" "je_socket aliceAgain = ''s3''"
    "je_username aliceAgain \<noteq> []" "trim (je_username aliceAgain) \<noteq> []"
    by (simp_all add: aliceAgain_def trim_Alice)
  have before: "sessionsOf (run_joins [aliceFirst, bobJoins] connected) ''alice'' = [''s1'']"
    by (simp add: run_two sessionsOf_def)
  from one_session_per_user [OF h1 h2 h3] v before h1 h2 h3
  show ?thesis
    by simp
qed


subsection \<open>Deleting a group\<close>

text \<open>
  C3, as the code has it. When the creator asks to delete an existing group, the group
  record and the chat-room record of that id are removed, every member of the removed
  record that resolves to a connected socket is sent \<open>groupDeleted\<close> (and nobody else),
  and the requester is sent \<open>groupDeleteSuccess\<close> last. The rooms of socket.io, that is
  the subscriptions, are left as they were, and so are the registry and the sockets.
\<close>

theorem deleteGroup_by_creator:
  assumes "Map_get (groupChats s) chatId = Some grp" and "g_createdBy grp = userId"
  shows "Map_get (groupChats (fst (deleteGroup_handler sid chatId userId username s))) chatId = None
    \<and> Map_get (chatRooms (fst (deleteGroup_handler sid chatId userId username s))) chatId = None
    \<and> rooms (fst (deleteGroup_handler sid chatId userId username s)) = rooms s
    \<and> connectedUsers (fst (deleteGroup_handler sid chatId userId username s)) = connectedUsers s
    \<and> sockets (fst (deleteGroup_handler sid chatId userId username s)) = sockets s
    \<and> (\<forall>k. ToSocket k (GroupDeleted chatId (g_name grp) username)
               \<in> set (snd (deleteGroup_handler sid chatId userId username s))
             \<longleftrightarrow> (\<exists>m \<in> set (g_members grp). memberSocket s (m_id m) = Some k))
    \<and> last (snd (deleteGroup_handler sid chatId userId username s))
         = ToSocket sid (GroupDeleteSuccess chatId (g_name grp))"
proof -
  let ?s' = "s\<lparr>groupChats := Map_delete chatId (groupChats s),
               chatRooms := Map_delete chatId (chatRooms s)\<rparr>"
  have h: "deleteGroup_handler sid chatId userId username s =
      (?s', notifyDeleted chatId (g_name grp) username (g_members grp) ?s'
            @ [ToSocket sid (GroupDeleteSuccess chatId (g_name grp))])"
    using assms by (simp add: deleteGroup_handler_def Let_def)
  have ms: "memberSocket ?s' u = memberSocket s u" for u
    by (simp add: memberSocket_def split: option.splits)
  have n: "ToSocket k (GroupDeleted chatId (g_name grp) username)
             \<in> set (notifyDeleted chatId (g_name grp) username (g_members grp) ?s')
           \<longleftrightarrow> (\<exists>m \<in> set (g_members grp). memberSocket s (m_id m) = Some k)" for k
    by (auto simp: notifyDeleted_def ms split: option.splits) metis
  show ?thesis
    unfolding h by (simp add: Map_get_Map_delete n)
qed

text \<open>The theorem at the example state: Alice deletes her group, Bob is notified.\<close>

theorem deleteGroup_by_creator_witness:
  "Map_get (groupChats demo) ''group-1'' = Some team \<and> g_createdBy team = ''alice''
   \<and> Map_get (groupChats (fst (deleteGroup_handler ''s1'' ''group-1'' ''alice'' ''Alice'' demo))) ''group-1'' = None
   \<and> rooms (fst (deleteGroup_handler ''s1'' ''group-1'' ''alice'' ''Alice'' demo)) = rooms demo
   \<and> ToSocket ''s2'' (GroupDeleted ''group-1'' ''Team'' ''Alice'')
        \<in> set (snd (deleteGroup_handler ''s1'' ''group-1'' ''alice'' ''Alice'' demo))"
proof -
  have h1: "Map_get (groupChats demo) ''group-1'' = Some team"
    by (simp add: demo_def Map_get_def)
  have h2: "g_createdBy team = ''alice''"
    by (simp add: team_def)
  have m: "bob \<in> set (g_members team)" "m_id bob = ''bob''" "g_name team = ''Team''"
    by (simp_all add: team_def bob_def)
  from deleteGroup_by_creator [OF h1 h2, of "''s1''" "''Alice''"] m memberSocket_demo(2) h1 h2
  show ?thesis
    by (metis)
qed

text \<open>
  C3 as stated fails: after Alice has deleted her group, the room of the group still
  holds both sockets, so the subscription state is not removed.
\<close>

theorem deleteGroup_keeps_subscriptions:
  "rooms (fst (deleteGroup_handler ''s1'' ''group-1'' ''alice'' ''Alice'' demo)) ''group-1''
     = [''s1'', ''s2'']"
  by (simp add: deleteGroup_handler_def demo_def team_def Map_get_def Let_def)

text \<open>
  C4. A delete request for an existing group by a user who is not its creator is answered
  with the \<open>unauthorized_delete\<close> error, sent to the requesting socket only, and the state
  (records, membership, rooms) is unchanged; a request naming an id without a group record
  is answered with \<open>group_not_found\<close>, again to the requester only and without any change.
\<close>

theorem deleteGroup_refused:
  "(Map_get (groupChats s) chatId = Some grp \<and> g_createdBy grp \<noteq> userId \<longrightarrow>
      deleteGroup_handler sid chatId userId username s =
        (s, [ToSocket sid (Error ''You are not authorized to delete this group''
                             (Some ''unauthorized_delete''))]))
   \<and> (Map_get (groupChats s) chatId = None \<longrightarrow>
      deleteGroup_handler sid chatId userId username s =
        (s, [ToSocket sid (Error ''Group not found'' (Some ''group_not_found''))]))"
  by (simp add: deleteGroup_handler_def)

text \<open>Bob tries to delete Alice's group; Alice tries to delete a group that does not exist.\<close>

theorem deleteGroup_refused_witness:
  "Map_get (groupChats demo) ''group-1'' = Some team \<and> g_createdBy team \<noteq> ''bob''
   \<and> deleteGroup_handler ''s2'' ''group-1'' ''bob'' ''Bob'' demo =
        (demo, [ToSocket ''s2'' (Error ''You are not authorized to delete this group''
                                   (Some ''unauthorized_delete''))])
   \<and> Map_get (groupChats demo) ''group-9'' = None
   \<and> deleteGroup_handler ''s1'' ''group-9'' ''alice'' ''Alice'' demo =
        (demo, [ToSocket ''s1'' (Error ''Group not found'' (Some ''group_not_found''))])"
proof -
  have h1: "Map_get (groupChats demo) ''group-1'' = Some team \<and> g_createdBy team \<noteq> ''bob''"
    by (simp add: demo_def team_def Map_get_def)
  have h2: "Map_get (groupChats demo) ''group-9'' = None"
    by (simp add: demo_def Map_get_def)
  from deleteGroup_refused [where s = demo and chatId = "''group-1''" and grp = team
      and userId = "''bob''" and sid = "''s2''" and username = "''Bob''"] h1
  have a: "deleteGroup_handler ''s2'' ''group-1'' ''bob'' ''Bob'' demo =
        (demo, [ToSocket ''s2'' (Error ''You are not authorized to delete this group''
                                   (Some ''unauthorized_delete''))])"
    by blast
  from deleteGroup_refused [where s = demo and chatId = "''group-9''"
      and userId = "''alice''" and sid = "''s1''" and username = "''Alice''"] h2
  have b: "deleteGroup_handler ''s1'' ''group-9'' ''alice'' ''Alice'' demo =
        (demo, [ToSocket ''s1'' (Error ''Group not found'' (Some ''group_not_found''))])"
    by blast
  from h1 h2 a b show ?thesis by blast
qed

subsection \<open>Creating and updating a group\<close>

text \<open>
  C1 asks that an update of an existing group keeps the creator. The handler writes the
  whole record anew, with the caller as \<open>createdBy\<close>: at the example state, where Alice
  created the group, Bob's \<open>joinChat\<close> with the group's name and members makes Bob its
  creator.
\<close>

theorem joinChat_update_replaces_creator:
  "map_option g_createdBy (Map_get (groupChats demo) ''group-1'') = Some ''alice''
   \<and> map_option g_createdBy
        (Map_get (groupChats (fst (joinChat_handler ''s2'' 7 bobOpens demo))) ''group-1'')
       = Some ''bob''"
proof -
  have v: "validMembers [alice, bob] = [alice, bob]"
    by (simp add: validMembers_def alice_def bob_def trim_def is_ws_def)
  have "groupChats (fst (joinChat_handler ''s2'' 7 bobOpens demo)) =
           Map_set (cd_chatId bobOpens)
             \<lparr>g_id = cd_chatId bobOpens, g_name = trim (the (cd_groupName bobOpens)),
              g_createdBy = cd_userId bobOpens, g_createdAt = 7,
              g_members = trimmedMembers (validMembers [alice, bob])\<rparr> (groupChats demo)"
    by (rule joinChat_group_stored(1)) (simp_all add: bobOpens_def v blank_def trim_def is_ws_def)
  then show ?thesis
    by (simp add: Map_get_Map_set bobOpens_def) (simp add: demo_def team_def Map_get_def)
qed

text \<open>
  C10. When a \<open>joinChat\<close> event carries a group payload that fails validation (a blank
  group name, or members none of which has a non-blank name), the error goes to the
  requesting socket and nothing is scheduled, but the socket has already joined the room
  and, if the chat room was new, its record has been stored: both changes are in the
  state the handler leaves. A chat room that existed and the group records are untouched.
\<close>

theorem joinChat_validation_not_atomic:
  assumes "cd_isGroup cd" and "cd_members cd = Some ms" and "ms \<noteq> []"
    and "blank (cd_groupName cd) \<or> validMembers ms = []"
  shows "snd (joinChat_handler sid now cd s) =
           ([ToSocket sid (Error (if blank (cd_groupName cd) then ''Invalid group name''
                                  else ''No valid members for group'') None)], [])
    \<and> sid \<in> set (rooms (fst (joinChat_handler sid now cd s)) (cd_chatId cd))
    \<and> (Map_has (chatRooms s) (cd_chatId cd) \<longrightarrow>
         chatRooms (fst (joinChat_handler sid now cd s)) = chatRooms s)
    \<and> (\<not> Map_has (chatRooms s) (cd_chatId cd) \<longrightarrow>
         Map_get (chatRooms (fst (joinChat_handler sid now cd s))) (cd_chatId cd) =
           Some \<lparr>r_id = cd_chatId cd, r_isGroup = True, r_name = cd_groupName cd,
                 r_createdAt = now, r_members = Some ms, r_messages = []\<rparr>)
    \<and> groupChats (fst (joinChat_handler sid now cd s)) = groupChats s"
  using assms
  by (auto simp add: joinChat_handler_def Let_def rooms_socket_join Map_get_Map_set)

text \<open>Bob's request with a blank group name, at the example state.\<close>

theorem joinChat_validation_not_atomic_witness:
  "cd_isGroup badGroup \<and> cd_members badGroup = Some [alice, bob] \<and> blank (cd_groupName badGroup)
   \<and> \<not> Map_has (chatRooms demo) ''group-2''
   \<and> snd (joinChat_handler ''s2'' 9 badGroup demo)
        = ([ToSocket ''s2'' (Error ''Invalid group name'' None)], [])
   \<and> ''s2'' \<in> set (rooms (fst (joinChat_handler ''s2'' 9 badGroup demo)) ''group-2'')
   \<and> Map_get (chatRooms (fst (joinChat_handler ''s2'' 9 badGroup demo))) ''group-2'' =
        Some \<lparr>r_id = ''group-2'', r_isGroup = True, r_name = Some ''  '',
              r_createdAt = 9, r_members = Some [alice, bob], r_messages = []\<rparr>"
proof -
  have h1: "cd_isGroup badGroup" and h2: "cd_members badGroup = Some [alice, bob]"
    and h3: "[alice, bob] \<noteq> []"
    by (simp_all add: badGroup_def)
  have b: "blank (cd_groupName badGroup)"
    by (simp add: badGroup_def blank_def trim_def is_ws_def)
  then have h4: "blank (cd_groupName badGroup) \<or> validMembers [alice, bob] = []" ..
  have n: "\<not> Map_has (chatRooms demo) ''group-2''"
    by (simp add: demo_def Map_has_def Map_get_def)
  have c: "cd_chatId badGroup = ''group-2''" "cd_groupName badGroup = Some ''  ''"
    by (simp_all add: badGroup_def)
  from joinChat_validation_not_atomic [OF h1 h2 h3 h4, of "''s2''" 9 demo] b n h1 h2
  show ?thesis
    unfolding c by simp
qed

subsection \<open>The deferred re-check\<close>

text \<open>
  C8, as the code has it. A \<open>joinChat\<close> event with a valid group payload schedules one
  task, 500 ms later, on the valid members of the payload, which are as many as the
  members of the record it has just written. When the task fires and the room has at
  least one socket but fewer sockets than those members, it repeats the subscribe pass
  once, after which every one of those members that resolves to a connected socket is in
  the room; when the room has no socket, or enough, it does nothing. In every case it
  emits nothing and schedules nothing further.
\<close>

theorem recheck_once:
  "(cd_isGroup cd \<and> cd_members cd = Some ms \<and> ms \<noteq> [] \<and> \<not> blank (cd_groupName cd)
      \<and> validMembers ms \<noteq> [] \<longrightarrow>
       snd (snd (joinChat_handler sid now cd s)) = [Recheck 500 (cd_chatId cd) (validMembers ms)]
       \<and> map_option (\<lambda>grp. length (g_members grp))
           (Map_get (groupChats (fst (joinChat_handler sid now cd s))) (cd_chatId cd))
         = Some (length (validMembers ms)))
   \<and> recheck_fire (Recheck delay chatId vms) s' =
       (if rooms s' chatId \<noteq> [] \<and> length (rooms s' chatId) < length vms
        then joinMembers chatId vms s' else s', [], [])
   \<and> (rooms s' chatId \<noteq> [] \<and> length (rooms s' chatId) < length vms \<longrightarrow>
        (\<forall>m \<in> set vms. \<forall>k. memberSocket s' (m_id m) = Some k \<longrightarrow>
           k \<in> set (rooms (fst (recheck_fire (Recheck delay chatId vms) s')) chatId)))"
  by (auto simp add: joinChat_group_stored Map_get_Map_set trimmedMembers_def
      recheck_fire_def membersMissing_def adapter_rooms_get_def rooms_joinMembers)

text \<open>
  Bob's payload schedules the task; fired when Alice alone is in the room, it brings Bob in.
\<close>

theorem recheck_once_witness:
  "cd_isGroup bobOpens \<and> cd_members bobOpens = Some [alice, bob]
   \<and> \<not> blank (cd_groupName bobOpens) \<and> validMembers [alice, bob] = [alice, bob]
   \<and> snd (snd (joinChat_handler ''s2'' 7 bobOpens demo)) = [Recheck 500 ''group-1'' [alice, bob]]
   \<and> rooms half ''group-1'' = [''s1'']
   \<and> recheck_fire (Recheck 500 ''group-1'' [alice, bob]) half
        = (joinMembers ''group-1'' [alice, bob] half, [], [])
   \<and> memberSocket half ''bob'' = Some ''s2''
   \<and> ''s2'' \<in> set (rooms (fst (recheck_fire (Recheck 500 ''group-1'' [alice, bob]) half)) ''group-1'')"
proof -
  have h: "cd_isGroup bobOpens" "cd_members bobOpens = Some [alice, bob]"
    "\<not> blank (cd_groupName bobOpens)" "cd_chatId bobOpens = ''group-1''"
    by (simp_all add: bobOpens_def blank_def trim_def is_ws_def)
  have v: "validMembers [alice, bob] = [alice, bob]"
    by (simp add: validMembers_def alice_def bob_def trim_def is_ws_def)
  have r: "rooms half ''group-1'' = [''s1'']"
    by (simp add: half_def)
  have b: "memberSocket half ''bob'' = Some ''s2''" "m_id bob = ''bob''"
    by (simp_all add: memberSocket_def findSocketId_def half_def demo_def bob_def)
  note t = recheck_once [where cd = bobOpens and ms = "[alice, bob]" and sid = "''s2''"
      and now = 7 and s = demo and delay = 500 and chatId = "''group-1''"
      and vms = "[alice, bob]" and s' = half]
  from t h v have 1: "snd (snd (joinChat_handler ''s2'' 7 bobOpens demo))
      = [Recheck 500 ''group-1'' [alice, bob]]"
    by simp
  from t r have 2: "recheck_fire (Recheck 500 ''group-1'' [alice, bob]) half
        = (joinMembers ''group-1'' [alice, bob] half, [], [])"
    by simp
  from t have "rooms half ''group-1'' \<noteq> [] \<and> length (rooms half ''group-1'') < length [alice, bob] \<longrightarrow>
        (\<forall>m \<in> set [alice, bob]. \<forall>k. memberSocket half (m_id m) = Some k \<longrightarrow>
           k \<in> set (rooms (fst (recheck_fire (Recheck 500 ''group-1'' [alice, bob]) half)) ''group-1''))"
    by blast
  with r have "\<forall>m \<in> set [alice, bob]. \<forall>k. memberSocket half (m_id m) = Some k \<longrightarrow>
           k \<in> set (rooms (fst (recheck_fire (Recheck 500 ''group-1'' [alice, bob]) half)) ''group-1'')"
    by simp
  then have "memberSocket half (m_id bob) = Some ''s2'' \<longrightarrow>
           ''s2'' \<in> set (rooms (fst (recheck_fire (Recheck 500 ''group-1'' [alice, bob]) half)) ''group-1'')"
    by simp
  with b have 3: "''s2'' \<in> set (rooms (fst (recheck_fire (Recheck 500 ''group-1'' [alice, bob]) half)) ''group-1'')"
    by simp
  from h v r b 1 2 3 show ?thesis by blast
qed

text \<open>
  C8 as stated fails when the room has no socket. Alice creates the group of two while
  Bob is away, which schedules the task, and her socket closes before it fires: the room
  is then empty, the record has two members, and the guard of the task is false, so the
  pass is not repeated.
\<close>

theorem recheck_skips_empty_room:
  "snd (snd (joinChat_handler ''s1'' 2 aliceCreates (join_step aliceFirst connected)))
     = [Recheck 500 ''group-1'' [alice, bob]]
   \<and> map_option (\<lambda>grp. length (g_members grp)) (Map_get (groupChats creatorLeft) ''group-1'')
       = Some 2
   \<and> rooms creatorLeft ''group-1'' = []
   \<and> \<not> membersMissing creatorLeft ''group-1'' [alice, bob]
   \<and> recheck_fire (Recheck 500 ''group-1'' [alice, bob]) creatorLeft = (creatorLeft, [], [])"
proof -
  have v: "validMembers [alice, bob] = [alice, bob]"
    by (simp add: validMembers_def alice_def bob_def trim_def is_ws_def)
  have p: "cd_isGroup aliceCreates" "cd_members aliceCreates = Some [alice, bob]"
    "\<not> blank (cd_groupName aliceCreates)" "cd_chatId aliceCreates = ''group-1''"
    "cd_groupName aliceCreates = Some ''Team''" "cd_userId aliceCreates = ''alice''"
    by (simp_all add: aliceCreates_def blank_def trim_def is_ws_def)
  have t: "snd (snd (joinChat_handler ''s1'' 2 aliceCreates (join_step aliceFirst connected)))
     = [Recheck 500 ''group-1'' [alice, bob]]"
    using joinChat_group_stored(2) [of aliceCreates "[alice, bob]"] p v by simp
  have g: "groupChats creatorLeft =
      Map_set ''group-1'' \<lparr>g_id = ''group-1'', g_name = trim ''Team'', g_createdBy = ''alice'',
         g_createdAt = 2, g_members = trimmedMembers [alice, bob]\<rparr>
        (groupChats (join_step aliceFirst connected))"
    using joinChat_group_stored(1) [of aliceCreates "[alice, bob]" "''s1''" 2
        "join_step aliceFirst connected"] p v
    by (simp add: creatorLeft_def socket_disconnect_fields)
  have s: "join_step aliceFirst connected =
      connected\<lparr>connectedUsers :=
        [(''s1'', \<lparr>u_id = ''alice'', u_username = ''Alice'', u_socketId = ''s1'', u_joinedAt = 1\<rparr>)]\<rparr>"
    by (simp add: join_step_def join_handler_def aliceFirst_def connected_def initial_def
        findSocketId_def userGroups_def Let_def trim_Alice)
  have r: "rooms (fst (joinChat_handler ''s1'' 2 aliceCreates (join_step aliceFirst connected)))
             ''group-1'' = [''s1'']"
    unfolding s
    by (simp add: joinChat_handler_def Let_def aliceCreates_def blank_def trim_Alice v
        addMembers_def memberSocket_def findSocketId_def connected_def initial_def socket_join_def
        alice_def bob_def validMembers_def trim_def is_ws_def Map_has_def Map_get_def)
  have e: "rooms creatorLeft ''group-1'' = []"
    by (simp add: creatorLeft_def socket_disconnect_fields r)
  from e have m: "\<not> membersMissing creatorLeft ''group-1'' [alice, bob]"
    by (simp add: membersMissing_def adapter_rooms_get_def)
  from m have f: "recheck_fire (Recheck 500 ''group-1'' [alice, bob]) creatorLeft
      = (creatorLeft, [], [])"
    by (simp add: recheck_fire_def)
  from g have c: "map_option (\<lambda>grp. length (g_members grp))
      (Map_get (groupChats creatorLeft) ''group-1'') = Some 2"
    by (simp add: Map_get_Map_set trimmedMembers_def)
  from t c e m f show ?thesis by blast
qed

subsection \<open>Routing a message\<close>

text \<open>
  C5, as the code has it. For a message naming a conversation whose id begins with
  \<open>group-\<close> and for which a group record exists, the handler first runs
  \<open>ensureGroupMembersInRoom\<close>, so that every member resolving to a connected socket is in
  the room afterwards, and then sends the (repaired) message to sockets one by one: the
  sockets that receive it are exactly those of the members whose id differs from the
  message's user id and who resolve to a connected socket, and nothing is sent to the
  room. Sending the same message again reaches the same sockets.
\<close>

theorem group_message_unicast:
  assumes "prefix ''group-'' chatId" and "Map_get (groupChats s) chatId = Some grp"
    and "md_chatId md = Some chatId"
  shows "\<exists>fixed. recoverSender sid now md s = Some fixed
    \<and> fst (message_handler sid now md s)
        = storeHistory chatId fixed (ensureGroupMembersInRoom chatId s)
    \<and> (\<forall>m \<in> set (g_members grp). \<forall>k. memberSocket s (m_id m) = Some k \<longrightarrow>
          k \<in> set (rooms (fst (message_handler sid now md s)) chatId))
    \<and> (\<forall>e \<in> set (snd (message_handler sid now md s)). \<exists>k. e = ToSocket k (Message fixed))
    \<and> (\<forall>k. ToSocket k (Message fixed) \<in> set (snd (message_handler sid now md s))
          \<longleftrightarrow> (\<exists>m \<in> set (g_members grp). Some (m_id m) \<noteq> md_userId fixed
                                             \<and> memberSocket s (m_id m) = Some k))
    \<and> snd (message_handler sid now md (fst (message_handler sid now md s)))
        = snd (message_handler sid now md s)"
proof -
  from assms(1) have "chatId \<noteq> []" by auto
  with assms(3) have "truthy (md_chatId md)" by (simp add: truthy_def)
  from recoverSender_chat [OF this] obtain fixed where
    f: "recoverSender sid now md s = Some fixed" and c: "md_chatId fixed = Some chatId"
    using assms(3) by metis
  let ?s' = "storeHistory chatId fixed (ensureGroupMembersInRoom chatId s)"
  have h: "message_handler sid now md s = (?s', unicastMembers fixed (g_members grp) s)"
    by (simp add: message_handler_def f route_group [OF assms(1,2) c])
  have f': "recoverSender sid now md ?s' = Some fixed"
    using f recoverSender_cong [of ?s' s sid now md] by simp
  have g': "Map_get (groupChats ?s') chatId = Some grp"
    using assms(2) by simp
  have h': "snd (message_handler sid now md ?s') = unicastMembers fixed (g_members grp) ?s'"
    by (simp add: message_handler_def f' route_group [OF assms(1) g' c])
  have u: "unicastMembers fixed (g_members grp) ?s' = unicastMembers fixed (g_members grp) s"
    by (rule unicastMembers_cong, rule memberSocket_cong) simp_all
  have r: "\<forall>m \<in> set (g_members grp). \<forall>k. memberSocket s (m_id m) = Some k \<longrightarrow>
          k \<in> set (rooms ?s' chatId)"
    by (auto simp: rooms_ensure [OF assms(1,2)])
  have a: "\<forall>e \<in> set (unicastMembers fixed (g_members grp) s). \<exists>k. e = ToSocket k (Message fixed)"
    by (auto simp: unicastMembers_mem)
  have b: "\<forall>k. ToSocket k (Message fixed) \<in> set (unicastMembers fixed (g_members grp) s)
          \<longleftrightarrow> (\<exists>m \<in> set (g_members grp). Some (m_id m) \<noteq> md_userId fixed
                                             \<and> memberSocket s (m_id m) = Some k)"
    by (simp add: unicastMembers_mem)
  show ?thesis
    using f r a b h' u unfolding h by (intro exI [of _ fixed]) simp
qed


text \<open>Alice writes to her group: Bob's socket receives the message, hers does not.\<close>

theorem group_message_unicast_witness:
  "prefix ''group-'' ''group-1'' \<and> Map_get (groupChats demo) ''group-1'' = Some team
   \<and> md_chatId toGroup = Some ''group-1''
   \<and> ToSocket ''s2'' (Message toGroup) \<in> set (snd (message_handler ''s1'' 5 toGroup demo))
   \<and> ToSocket ''s1'' (Message toGroup) \<notin> set (snd (message_handler ''s1'' 5 toGroup demo))"
proof -
  have h1: "prefix ''group-'' ''group-1''" by simp
  have h2: "Map_get (groupChats demo) ''group-1'' = Some team"
    by (simp add: demo_def Map_get_def)
  have h3: "md_chatId toGroup = Some ''group-1''"
    by (simp add: toGroup_def)
  have rs: "recoverSender ''s1'' 5 toGroup demo = Some toGroup"
    by (simp add: recoverSender_def toGroup_def blank_def trim_def is_ws_def)
  from group_message_unicast [OF h1 h2 h3, of "''s1''" 5] rs
  have iff: "\<forall>k. ToSocket k (Message toGroup) \<in> set (snd (message_handler ''s1'' 5 toGroup demo))
          \<longleftrightarrow> (\<exists>m \<in> set (g_members team). Some (m_id m) \<noteq> md_userId toGroup
                                             \<and> memberSocket demo (m_id m) = Some k)"
    by auto
  have m: "g_members team = [alice, bob]" "m_id alice = ''alice''" "m_id bob = ''bob''"
    "md_userId toGroup = Some ''alice''"
    by (simp_all add: team_def alice_def bob_def toGroup_def)
  have a: "ToSocket ''s2'' (Message toGroup) \<in> set (snd (message_handler ''s1'' 5 toGroup demo))"
    unfolding iff [rule_format] m by (simp add: m memberSocket_demo)
  have b: "ToSocket ''s1'' (Message toGroup) \<notin> set (snd (message_handler ''s1'' 5 toGroup demo))"
    unfolding iff [rule_format] m by (simp add: m memberSocket_demo)
  from h1 h2 h3 a b show ?thesis by blast
qed

text \<open>
  C5 as stated fails for a group record whose id lacks the prefix: the message to the
  group \<open>team\<close> is sent once to the room, not to the members one by one.
\<close>

theorem plain_group_message_broadcast:
  "map_option g_members (Map_get (groupChats plain) ''team'') = Some [alice, bob]
   \<and> snd (message_handler ''s1'' 5 hello plain) = [ToRoomExcept ''team'' ''s1'' (Message hello)]"
  by (simp add: plain_def demo_def team_def hello_def Map_get_def Map_has_def message_handler_def
      recoverSender_def blank_def trim_def is_ws_def route_def Let_def)


text \<open>
  C6, as the code has it. For a message whose name is absent or blank: when the sending
  socket is registered, the name and the user id of its registration replace those of the
  message, which is then routed. When the socket has no usable registration and the
  message names a conversation, the message is routed all the same: a name that is absent
  or empty becomes \<open>Unknown User\<close> (a name of white space only stays), and a user id that
  is absent or empty becomes \<open>unknown-\<close> followed by the clock. When the socket has no
  usable registration and the message names no conversation, the message is dropped:
  nothing is sent and nothing changes. Routing sends a message with a conversation once
  to the room, or to the members one by one when the conversation is a prefixed group,
  and a message without a conversation to every other socket.
\<close>

theorem sender_recovery:
  assumes "blank (md_username md)"
  shows "(Map_get (connectedUsers s) sid = Some u \<and> u_username u \<noteq> [] \<longrightarrow>
           message_handler sid now md s =
             route sid (md\<lparr>md_username := Some (u_username u), md_userId := Some (u_id u)\<rparr>) s)
    \<and> ((Map_get (connectedUsers s) sid = None
           \<or> map_option u_username (Map_get (connectedUsers s) sid) = Some [])
          \<and> truthy (md_chatId md) \<longrightarrow>
           message_handler sid now md s =
             route sid (md\<lparr>md_username := (if truthy (md_username md) then md_username md
                                            else Some ''Unknown User''),
                           md_userId := (if truthy (md_userId md) then md_userId md
                                         else Some (''unknown-'' @ digits now))\<rparr>) s)
    \<and> ((Map_get (connectedUsers s) sid = None
           \<or> map_option u_username (Map_get (connectedUsers s) sid) = Some [])
          \<and> \<not> truthy (md_chatId md) \<longrightarrow>
           message_handler sid now md s = (s, []))
    \<and> (\<forall>m c. md_chatId m = Some c \<and> c \<noteq> []
            \<and> \<not> (prefix ''group-'' c \<and> Map_has (groupChats s) c) \<longrightarrow>
           snd (route sid m s) = [ToRoomExcept c sid (Message m)])
    \<and> (\<forall>m c grp. md_chatId m = Some c \<and> prefix ''group-'' c
            \<and> Map_get (groupChats s) c = Some grp \<longrightarrow>
           snd (route sid m s) = unicastMembers m (g_members grp) s)
    \<and> (\<forall>m. \<not> truthy (md_chatId m) \<longrightarrow> route sid m s = (s, [BroadcastExcept sid (Message m)]))"
proof -
  have 1: "Map_get (connectedUsers s) sid = Some u \<and> u_username u \<noteq> [] \<longrightarrow>
           message_handler sid now md s =
             route sid (md\<lparr>md_username := Some (u_username u), md_userId := Some (u_id u)\<rparr>) s"
    using assms by (simp add: message_handler_def recoverSender_def)
  have 2: "(Map_get (connectedUsers s) sid = None
           \<or> map_option u_username (Map_get (connectedUsers s) sid) = Some [])
          \<and> truthy (md_chatId md) \<longrightarrow>
           message_handler sid now md s =
             route sid (md\<lparr>md_username := (if truthy (md_username md) then md_username md
                                            else Some ''Unknown User''),
                           md_userId := (if truthy (md_userId md) then md_userId md
                                         else Some (''unknown-'' @ digits now))\<rparr>) s"
    using assms
    by (cases "Map_get (connectedUsers s) sid") (auto simp: message_handler_def recoverSender_def)
  have 3: "(Map_get (connectedUsers s) sid = None
           \<or> map_option u_username (Map_get (connectedUsers s) sid) = Some [])
          \<and> \<not> truthy (md_chatId md) \<longrightarrow>
           message_handler sid now md s = (s, [])"
    using assms
    by (cases "Map_get (connectedUsers s) sid") (auto simp: message_handler_def recoverSender_def)
  have 5: "\<forall>m c grp. md_chatId m = Some c \<and> prefix ''group-'' c
            \<and> Map_get (groupChats s) c = Some grp \<longrightarrow>
           snd (route sid m s) = unicastMembers m (g_members grp) s"
    using route_group [of _ s _ _ sid] by (metis snd_conv)
  from 1 2 3 5 route_plain [of _ _ s sid] show ?thesis
    by blast
qed

text \<open>
  A nameless message to the direct chat of Alice and Bob, from Alice's socket and from a
  socket that never registered; the same message with a name of two spaces; and the same
  message without a conversation.
\<close>

theorem sender_recovery_witness:
  "blank (md_username anonDirect)
   \<and> map_option u_username (Map_get (connectedUsers demo) ''s1'') = Some ''Alice''
   \<and> snd (message_handler ''s1'' 42 anonDirect demo) =
        [ToRoomExcept ''alice-bob'' ''s1''
           (Message (anonDirect\<lparr>md_username := Some ''Alice'', md_userId := Some ''alice''\<rparr>))]
   \<and> Map_get (connectedUsers demo) ''s9'' = None
   \<and> snd (message_handler ''s9'' 42 anonDirect demo) =
        [ToRoomExcept ''alice-bob'' ''s9''
           (Message (anonDirect\<lparr>md_username := Some ''Unknown User'',
                                 md_userId := Some ''unknown-42''\<rparr>))]
   \<and> blank (md_username (anonDirect\<lparr>md_username := Some ''  ''\<rparr>))
   \<and> snd (message_handler ''s9'' 42 (anonDirect\<lparr>md_username := Some ''  ''\<rparr>) demo) =
        [ToRoomExcept ''alice-bob'' ''s9''
           (Message (anonDirect\<lparr>md_username := Some ''  '', md_userId := Some ''unknown-42''\<rparr>))]
   \<and> message_handler ''s9'' 42 (anonDirect\<lparr>md_chatId := None\<rparr>) demo = (demo, [])"
proof -
  let ?u = "\<lparr>u_id = ''alice'', u_username = ''Alice'', u_socketId = ''s1'', u_joinedAt = 0\<rparr>"
  let ?w = "anonDirect\<lparr>md_username := Some ''  ''\<rparr>"
  have b: "blank (md_username anonDirect)" "blank (md_username (anonDirect\<lparr>md_chatId := None\<rparr>))"
    "blank (md_username ?w)"
    by (simp_all add: anonDirect_def blank_def trim_def is_ws_def)
  have r1: "Map_get (connectedUsers demo) ''s1'' = Some ?u"
    and r9: "Map_get (connectedUsers demo) ''s9'' = None"
    by (simp_all add: demo_def Map_get_def)
  have c: "truthy (md_chatId anonDirect)" "\<not> truthy (md_username anonDirect)"
    "\<not> truthy (md_userId anonDirect)" "\<not> truthy (md_chatId (anonDirect\<lparr>md_chatId := None\<rparr>))"
    "truthy (md_chatId ?w)" "truthy (md_username ?w)" "\<not> truthy (md_userId ?w)"
    by (simp_all add: anonDirect_def truthy_def)
  have g: "\<not> (prefix ''group-'' ''alice-bob'' \<and> Map_has (groupChats demo) ''alice-bob'')"
    by simp
  note t = sender_recovery [OF b(1), of demo]
  note t' = sender_recovery [OF b(2), of demo]
  note t'' = sender_recovery [OF b(3), of demo]
  from t [of "''s1''" ?u 42] r1
  have 1: "message_handler ''s1'' 42 anonDirect demo =
      route ''s1'' (anonDirect\<lparr>md_username := Some ''Alice'', md_userId := Some ''alice''\<rparr>) demo"
    by simp
  from t [of "''s9''" _ 42] r9 c
  have 2: "message_handler ''s9'' 42 anonDirect demo =
      route ''s9'' (anonDirect\<lparr>md_username := Some ''Unknown User'',
                                 md_userId := Some ''unknown-42''\<rparr>) demo"
    by (simp add: digits_42)
  from t' [of "''s9''" _ 42] r9 c
  have 3: "message_handler ''s9'' 42 (anonDirect\<lparr>md_chatId := None\<rparr>) demo = (demo, [])"
    by simp
  from t'' [of "''s9''" _ 42] r9 c
  have 6: "message_handler ''s9'' 42 ?w demo =
      route ''s9'' (anonDirect\<lparr>md_username := Some ''  '', md_userId := Some ''unknown-42''\<rparr>) demo"
    by (simp add: digits_42)
  from t [of "''s1''" ?u 42] g
  have 4: "snd (route ''s1'' m demo) = [ToRoomExcept ''alice-bob'' ''s1'' (Message m)]"
    if "md_chatId m = Some ''alice-bob''" for m
    using that by simp
  from t [of "''s9''" ?u 42] g
  have 5: "snd (route ''s9'' m demo) = [ToRoomExcept ''alice-bob'' ''s9'' (Message m)]"
    if "md_chatId m = Some ''alice-bob''" for m
    using that by simp
  have ch: "md_chatId (anonDirect\<lparr>md_username := x, md_userId := y\<rparr>) = Some ''alice-bob''" for x y
    by (simp add: anonDirect_def)
  show ?thesis
    using b(1,3) r9 3 by (simp add: 1 2 6 4 [OF ch] 5 [OF ch] r1)
qed


text \<open>
  C6 as stated fails: a nameless message without a conversation from a socket that is not
  registered is dropped.
\<close>

theorem anonymous_global_message_dropped:
  "blank (md_username anon) \<and> message_handler ''s9'' 42 anon demo = (demo, [])"
  by (simp add: anon_def message_handler_def recoverSender_def blank_def truthy_def demo_def
      Map_get_def)


subsection \<open>Asking for a group's record\<close>

text \<open>
  C7, as the code has it. A \<open>getGroupInfo\<close> request for an id without a group record is
  not answered at all and changes nothing. When the record exists, the requester is sent
  its name, members, creator and creation time, and the requesting socket joins the room.
\<close>

theorem getGroupInfo_reply:
  "(Map_get (groupChats s) chatId = None \<longrightarrow> getGroupInfo_handler sid chatId s = (s, []))
   \<and> (Map_get (groupChats s) chatId = Some grp \<longrightarrow>
        snd (getGroupInfo_handler sid chatId s)
          = [ToSocket sid (GroupInfo chatId (g_name grp) (g_members grp)
                             (g_createdBy grp) (g_createdAt grp))]
        \<and> fst (getGroupInfo_handler sid chatId s) = socket_join sid chatId s
        \<and> sid \<in> set (rooms (fst (getGroupInfo_handler sid chatId s)) chatId))"
  by (simp add: getGroupInfo_handler_def rooms_socket_join)

text \<open>The theorem at the empty server and at the example state.\<close>

theorem getGroupInfo_reply_witness:
  "Map_get (groupChats initial) ''group-1'' = None
   \<and> getGroupInfo_handler ''s1'' ''group-1'' initial = (initial, [])
   \<and> Map_get (groupChats demo) ''group-1'' = Some team
   \<and> snd (getGroupInfo_handler ''s2'' ''group-1'' demo)
        = [ToSocket ''s2'' (GroupInfo ''group-1'' ''Team'' [alice, bob] ''alice'' 1)]
   \<and> ''s2'' \<in> set (rooms (fst (getGroupInfo_handler ''s2'' ''group-1'' demo)) ''group-1'')"
proof -
  have h1: "Map_get (groupChats initial) ''group-1'' = None"
    by (simp add: initial_def Map_get_def)
  have h2: "Map_get (groupChats demo) ''group-1'' = Some team"
    by (simp add: demo_def Map_get_def)
  have t: "g_name team = ''Team''" "g_members team = [alice, bob]" "g_createdBy team = ''alice''"
    "g_createdAt team = 1"
    by (simp_all add: team_def)
  from getGroupInfo_reply [where s = initial and chatId = "''group-1''" and sid = "''s1''"] h1
  have a: "getGroupInfo_handler ''s1'' ''group-1'' initial = (initial, [])" by blast
  from getGroupInfo_reply [where s = demo and chatId = "''group-1''" and grp = team and sid = "''s2''"] h2
  have b: "snd (getGroupInfo_handler ''s2'' ''group-1'' demo)
          = [ToSocket ''s2'' (GroupInfo ''group-1'' (g_name team) (g_members team)
                             (g_createdBy team) (g_createdAt team))]
        \<and> ''s2'' \<in> set (rooms (fst (getGroupInfo_handler ''s2'' ''group-1'' demo)) ''group-1'')"
    by blast
  from a b h1 h2 show ?thesis unfolding t by blast
qed

text \<open>
  C7 as stated fails: once Alice has deleted the group, Bob's request for its record gets
  no reply, where the claim promises a not-found result.
\<close>

theorem getGroupInfo_deleted_no_reply:
  "Map_get (groupChats (fst (deleteGroup_handler ''s1'' ''group-1'' ''alice'' ''Alice'' demo))) ''group-1'' = None
   \<and> snd (getGroupInfo_handler ''s2'' ''group-1''
            (fst (deleteGroup_handler ''s1'' ''group-1'' ''alice'' ''Alice'' demo))) = []"
  by (simp add: getGroupInfo_handler_def deleteGroup_handler_def demo_def team_def Map_get_def
      Map_delete_def Let_def)


end
